theory Spec2Isabelle
  imports Main
begin

section \<open>The batched sampler operations of \<^verbatim>\<open>src/sampler.ts\<close>\<close>

text \<open>
  The module wraps read-only queries against a sampler contract. An operation knows how
  to encode its call, how to decode the bytes that come back and what to return when the
  call reverted; \<^verbatim>\<open>createBatch\<close> packs several operations into one, and
  \<^verbatim>\<open>executeBatchAsync\<close> sends the payloads of a list of operations in a single
  remote call and hands every operation its part of the answer.

  Exceptions are values of the type \<open>error\<close> (\<open>Inl\<close> of a sum), a promise that rejects is
  the same \<open>Inl\<close>. The JavaScript value \<^verbatim>\<open>undefined\<close>, which an index out of range
  yields, is \<open>None\<close>. \<^verbatim>\<open>BigNumber\<close> is \<open>int\<close>.
\<close>

subsection \<open>Types of the module and of its imports\<close>

text \<open>
  The enum \<^verbatim>\<open>Protocol\<close> is declared in \<^verbatim>\<open>./types\<close>, which is not among the
  sources. The module names two of its members; every other member is an
  \<open>OtherProtocol\<close>, told apart by its name.
\<close>

datatype Protocol = UniswapV2 | SushiSwap | OtherProtocol string

type_synonym ChainId = nat

text \<open>
  Everything the module throws or lets through: its own two \<^verbatim>\<open>Error\<close>s (lines 126 and
  146, each message ends with the protocol), what the ABI coder throws, what a rejected
  remote call carries, and the \<^verbatim>\<open>TypeError\<close> of a method call on \<^verbatim>\<open>undefined\<close>.
\<close>

datatype error =
    UnsupportedSellSampleProtocol Protocol
  | UnsupportedBuySampleProtocol Protocol
  | AbiError string
  | RemoteError string
  | TypeError

text \<open>A value typed \<^verbatim>\<open>string\<close> that may be \<^verbatim>\<open>undefined\<close> at run time.\<close>

type_synonym raw = "string option"

text \<open>The arguments of an encoded call: a token path, fill amounts, or sub-calls.\<close>

datatype param = Addresses "string list" | Amounts "int list" | Calls "string list"

text \<open>
  \<^verbatim>\<open>Interface\<close> is the ABI coder of \<^verbatim>\<open>@ethersproject/abi\<close>, built from an ABI that is
  not among the sources, so it is a parameter of the model. Each of its methods may throw.
  The module reads a decoded result in two ways, which are the two typed views here:
  \<^verbatim>\<open>decodeFunctionResult(fragment, data)[0] as BigNumber[]\<close> and
  \<^verbatim>\<open>decodeFunctionResult('batchCall', data).callResults\<close>.
  \<open>decodeErrorResult\<close> gives the decoded error already turned into a string.
\<close>

record Interface =
  getFunction :: "string \<Rightarrow> error + string"
  encodeFunctionData :: "string \<Rightarrow> param list option \<Rightarrow> error + string"
  decodeFunctionResult_0 :: "string \<Rightarrow> raw \<Rightarrow> error + int list"
  decodeFunctionResult_callResults :: "string \<Rightarrow> raw \<Rightarrow> error + string list"
  decodeErrorResult :: "string \<Rightarrow> raw \<Rightarrow> error + string"

text \<open>
  \<^verbatim>\<open>logger.warn\<close> is the one side effect besides the remote call: the logger is the list
  of the warnings written so far. A warning keeps the three parts of the message
  \<^verbatim>\<open>Sampler Operation: ${protocol}.${functionName} reverted ${msg}\<close>.
\<close>

datatype warning = Reverted Protocol string string

type_synonym logger = "warning list"

text \<open>
  \<^verbatim>\<open>interface ContractOperation<TResult>\<close>. \<open>encodeCall\<close> takes no argument, so it is the
  value the call gives. Only \<open>handleRevert\<close> passes the logger on.
\<close>

record 'r ContractOperation =
  encodeCall :: "error + string"
  handleCallResults :: "raw \<Rightarrow> error + 'r"
  handleRevert :: "raw \<Rightarrow> logger \<Rightarrow> (error + 'r) \<times> logger"

record SourceContractOperation = "(int list) ContractOperation" +
  protocol :: Protocol

record SamplerRoute =
  protocol :: Protocol
  path :: "string list"

text \<open>
  \<open>input\<close> is \<^verbatim>\<open>amounts[j]\<close>, which is \<^verbatim>\<open>undefined\<close> when a route answers with more
  quantities than there are amounts.
\<close>

record DexSample =
  protocol :: Protocol
  input :: "int option"
  output' :: int

record SamplerContractOption =
  protocol :: Protocol
  contractInterface :: Interface
  functionName :: string
  functionParams :: "param list option"

subsection \<open>What lodash and indexing do\<close>

text \<open>\<^verbatim>\<open>xs[i]\<close>: the element, or \<^verbatim>\<open>undefined\<close> out of range.\<close>

fun js_index :: "'a list \<Rightarrow> nat \<Rightarrow> 'a option" where
  "js_index [] i = None"
| "js_index (x # xs) 0 = Some x"
| "js_index (x # xs) (Suc i) = js_index xs i"

text \<open>
  \<^verbatim>\<open>_.map(xs, f)\<close> for a callback that may throw: the elements are visited in order and
  the first exception ends the whole map. A callback that reads the index gets the list
  paired with its indices, \<open>enumerate 0 xs\<close>.
\<close>

fun lodash_map :: "('a \<Rightarrow> error + 'b) \<Rightarrow> 'a list \<Rightarrow> error + 'b list" where
  "lodash_map f [] = Inr []"
| "lodash_map f (x # xs) =
     (case f x of
        Inl e \<Rightarrow> Inl e
      | Inr y \<Rightarrow> (case lodash_map f xs of Inl e \<Rightarrow> Inl e | Inr ys \<Rightarrow> Inr (y # ys)))"

subsection \<open>\<^verbatim>\<open>class SamplerContractOperation\<close>\<close>

text \<open>
  The constructor copies the four options into private fields; the object the rest of the
  module sees is its three methods and \<open>protocol\<close>.
\<close>

definition SamplerContractOperation :: "SamplerContractOption \<Rightarrow> SourceContractOperation" where
  "SamplerContractOperation options =
     \<lparr> encodeCall =
         (case getFunction (contractInterface options) (functionName options) of
            Inl e \<Rightarrow> Inl e
          | Inr fragment \<Rightarrow>
              encodeFunctionData (contractInterface options) fragment (functionParams options)),
       handleCallResults = (\<lambda>callResults.
         (case getFunction (contractInterface options) (functionName options) of
            Inl e \<Rightarrow> Inl e
          | Inr fragment \<Rightarrow>
              decodeFunctionResult_0 (contractInterface options) fragment callResults)),
       handleRevert = (\<lambda>callResults logger.
         (case decodeErrorResult (contractInterface options) (functionName options) callResults of
            Inl e \<Rightarrow> (Inl e, logger)
          | Inr msg \<Rightarrow>
              (Inr [],
               logger @ [Reverted (SamplerContractOption.protocol options)
                                  (functionName options) msg]))),
       SourceContractOperation.protocol = SamplerContractOption.protocol options \<rparr>"

subsection \<open>\<^verbatim>\<open>class SamplerOperation\<close>\<close>

record SamplerOperation =
  chainId :: ChainId
  contractInterface :: Interface

text \<open>
  The two factory methods do not read \<^verbatim>\<open>this\<close>: the interface of the operation is
  \<^verbatim>\<open>Erc20BridgeSampler__factory.createInterface()\<close>, an import, passed here as
  \<open>createInterface\<close>. The third parameter defaults to \<^verbatim>\<open>Protocol.UniswapV2\<close> when the
  caller leaves it out.
\<close>

definition getUniswapV2SellQuotes ::
  "Interface \<Rightarrow> string list \<Rightarrow> int list \<Rightarrow> Protocol option \<Rightarrow> SourceContractOperation" where
  "getUniswapV2SellQuotes createInterface tokenAddressPath takerFillAmounts protocol' =
     SamplerContractOperation
       \<lparr> SamplerContractOption.protocol = (case protocol' of None \<Rightarrow> UniswapV2 | Some p \<Rightarrow> p),
         SamplerContractOption.contractInterface = createInterface,
         functionName = ''sampleSellsFromUniswapV2'',
         functionParams = Some [Addresses tokenAddressPath, Amounts takerFillAmounts] \<rparr>"

definition getUniswapV2BuyQuotes ::
  "Interface \<Rightarrow> string list \<Rightarrow> int list \<Rightarrow> Protocol option \<Rightarrow> SourceContractOperation" where
  "getUniswapV2BuyQuotes createInterface tokenAddressPath makerFillAmounts protocol' =
     SamplerContractOperation
       \<lparr> SamplerContractOption.protocol = (case protocol' of None \<Rightarrow> UniswapV2 | Some p \<Rightarrow> p),
         SamplerContractOption.contractInterface = createInterface,
         functionName = ''sampleBuysFromUniswapV2'',
         functionParams = Some [Addresses tokenAddressPath, Amounts makerFillAmounts] \<rparr>"

definition getSellQuoteOperations ::
  "Interface \<Rightarrow> int list \<Rightarrow> SamplerRoute list \<Rightarrow> error + SourceContractOperation list" where
  "getSellQuoteOperations createInterface amounts routes =
     lodash_map (\<lambda>route.
       (let protocol' = SamplerRoute.protocol route in
        case protocol' of
          UniswapV2 \<Rightarrow>
            Inr (getUniswapV2SellQuotes createInterface (path route) amounts (Some protocol'))
        | SushiSwap \<Rightarrow>
            Inr (getUniswapV2SellQuotes createInterface (path route) amounts (Some protocol'))
        | OtherProtocol _ \<Rightarrow> Inl (UnsupportedSellSampleProtocol protocol'))) routes"

definition getBuyQuoteOperations ::
  "Interface \<Rightarrow> int list \<Rightarrow> SamplerRoute list \<Rightarrow> error + SourceContractOperation list" where
  "getBuyQuoteOperations createInterface amounts routes =
     lodash_map (\<lambda>route.
       (let protocol' = SamplerRoute.protocol route in
        case protocol' of
          UniswapV2 \<Rightarrow>
            Inr (getUniswapV2BuyQuotes createInterface (path route) amounts (Some protocol'))
        | SushiSwap \<Rightarrow>
            Inr (getUniswapV2BuyQuotes createInterface (path route) amounts (Some protocol'))
        | OtherProtocol _ \<Rightarrow> Inl (UnsupportedBuySampleProtocol protocol'))) routes"

text \<open>\<^verbatim>\<open>createBatch\<close>, lines 190 to 212: wraps \<open>subOps\<close> into a single batch operation.\<close>

definition createBatch ::
  "'a SamplerOperation_scheme \<Rightarrow> ('r, 'z) ContractOperation_scheme list \<Rightarrow> ('r list \<Rightarrow> 't) \<Rightarrow>
   (raw \<Rightarrow> logger \<Rightarrow> (error + 't) \<times> logger) \<Rightarrow> 't ContractOperation" where
  "createBatch this subOps resultHandler revertHandler =
     \<lparr> encodeCall =
         (case lodash_map encodeCall subOps of
            Inl e \<Rightarrow> Inl e
          | Inr subCalls \<Rightarrow>
              encodeFunctionData (SamplerOperation.contractInterface this) ''batchCall''
                (Some [Calls subCalls])),
       handleCallResults = (\<lambda>callResults.
         (case decodeFunctionResult_callResults (SamplerOperation.contractInterface this)
                 ''batchCall'' callResults of
            Inl e \<Rightarrow> Inl e
          | Inr rawSubcallResults \<Rightarrow>
              (case lodash_map (\<lambda>(i, op). handleCallResults op (js_index rawSubcallResults i))
                      (enumerate 0 subOps) of
                 Inl e \<Rightarrow> Inl e
               | Inr results \<Rightarrow> Inr (resultHandler results)))),
       handleRevert = revertHandler \<rparr>"

text \<open>
  The result handler that \<^verbatim>\<open>getSellQuotes\<close> and \<^verbatim>\<open>getBuyQuotes\<close> both pass (lines 160 to
  166 and 178 to 184, the same text twice). \<^verbatim>\<open>_.map\<close> over \<^verbatim>\<open>samples[i]\<close> that is
  \<^verbatim>\<open>undefined\<close> is the empty list.
\<close>

definition dexSamples :: "SamplerRoute list \<Rightarrow> int list \<Rightarrow> int list list \<Rightarrow> DexSample list list" where
  "dexSamples routes amounts samples =
     map (\<lambda>(i, route).
       map (\<lambda>(j, output).
             \<lparr> DexSample.protocol = SamplerRoute.protocol route,
               input = js_index amounts j,
               output' = output \<rparr>)
           (enumerate 0 (case js_index samples i of None \<Rightarrow> [] | Some s \<Rightarrow> s)))
       (enumerate 0 routes)"

definition getSellQuotes ::
  "Interface \<Rightarrow> 'a SamplerOperation_scheme \<Rightarrow> int list \<Rightarrow> SamplerRoute list \<Rightarrow>
   error + (DexSample list list) ContractOperation" where
  "getSellQuotes createInterface this amounts routes =
     (case getSellQuoteOperations createInterface amounts routes of
        Inl e \<Rightarrow> Inl e
      | Inr subOps \<Rightarrow>
          Inr (createBatch this subOps (dexSamples routes amounts)
                 (\<lambda>_ logger. (Inr [], logger))))"

definition getBuyQuotes ::
  "Interface \<Rightarrow> 'a SamplerOperation_scheme \<Rightarrow> int list \<Rightarrow> SamplerRoute list \<Rightarrow>
   error + (DexSample list list) ContractOperation" where
  "getBuyQuotes createInterface this amounts routes =
     (case getBuyQuoteOperations createInterface amounts routes of
        Inl e \<Rightarrow> Inl e
      | Inr subOps \<Rightarrow>
          Inr (createBatch this subOps (dexSamples routes amounts)
                 (\<lambda>_ logger. (Inr [], logger))))"

subsection \<open>\<^verbatim>\<open>class Sampler\<close>\<close>

text \<open>
  Of the class, the fields that \<^verbatim>\<open>executeBatchAsync\<close> reads. The constructor, which looks
  up the address of the contract and connects to it, is left out: nothing below runs it.
\<close>

record SamplerOverrides =
  blockNumber :: "nat option"

text \<open>
  The contract object: \<^verbatim>\<open>callStatic.batchCall(calls, {blockTag})\<close> answers with one byte
  string per call, or the promise rejects.
\<close>

record Erc20BridgeSampler =
  batchCall :: "string list \<Rightarrow> nat option \<Rightarrow> error + string list"

record Sampler = SamplerOperation +
  samplerOverrides :: SamplerOverrides
  samplerContract :: Erc20BridgeSampler

definition NULL_BYTES :: string where
  "NULL_BYTES = ''0x0''"

text \<open>
  Lines 261 to 267: the second walk over \<open>callDatas\<close>, with the counter
  \<open>rawCallResultsIdx\<close> that moves on at every payload that was sent.
\<close>

fun parseResults ::
  "('r, 'z) ContractOperation_scheme list \<Rightarrow> string list \<Rightarrow> nat \<Rightarrow> (nat \<times> string) list \<Rightarrow>
   error + 'r list" where
  "parseResults ops rawCallResults rawCallResultsIdx [] = Inr []"
| "parseResults ops rawCallResults rawCallResultsIdx ((i, callData) # rest) =
     (let result = (if callData \<noteq> NULL_BYTES
                    then js_index rawCallResults rawCallResultsIdx
                    else Some NULL_BYTES);
          rawCallResultsIdx' = (if callData \<noteq> NULL_BYTES
                                then rawCallResultsIdx + 1
                                else rawCallResultsIdx)
      in case js_index ops i of
           None \<Rightarrow> Inl TypeError
         | Some op \<Rightarrow>
             (case handleCallResults op result of
                Inl e \<Rightarrow> Inl e
              | Inr r \<Rightarrow>
                  (case parseResults ops rawCallResults rawCallResultsIdx' rest of
                     Inl e \<Rightarrow> Inl e
                   | Inr rs \<Rightarrow> Inr (r # rs))))"

text \<open>
  \<^verbatim>\<open>executeBatchAsync\<close> gives its result, and beside it the remote calls it made: the
  payloads and the block tag of each.
\<close>

type_synonym remote_call = "string list \<times> nat option"

definition executeBatchAsync ::
  "'a Sampler_scheme \<Rightarrow> ('r, 'z) ContractOperation_scheme list \<Rightarrow>
   (error + 'r list) \<times> remote_call list" where
  "executeBatchAsync this ops =
     (case lodash_map encodeCall ops of
        Inl e \<Rightarrow> (Inl e, [])
      | Inr callDatas \<Rightarrow>
          (let blockNumber' = blockNumber (samplerOverrides this) in
           if list_all (\<lambda>cd. cd = NULL_BYTES) callDatas then
             (lodash_map (\<lambda>(i, callData).
                 (case js_index ops i of
                    None \<Rightarrow> Inl TypeError
                  | Some op \<Rightarrow> handleCallResults op (Some NULL_BYTES)))
               (enumerate 0 callDatas), [])
           else
             (let sent = filter (\<lambda>cd. cd \<noteq> NULL_BYTES) callDatas in
              case batchCall (samplerContract this) sent blockNumber' of
                Inl e \<Rightarrow> (Inl e, [(sent, blockNumber')])
              | Inr rawCallResults \<Rightarrow>
                  (parseResults ops rawCallResults 0 (enumerate 0 callDatas),
                   [(sent, blockNumber')]))))"

definition executeAsync ::
  "'a Sampler_scheme \<Rightarrow> ('r, 'z) ContractOperation_scheme list \<Rightarrow>
   (error + 'r list) \<times> remote_call list" where
  "executeAsync this ops = executeBatchAsync this ops"

subsection \<open>A small environment for concrete runs\<close>

text \<open>
  An ABI coder and a contract over a toy wire format, as a unit test would stub them. The
  coder rejects a byte string with an odd number of hex digits when it encodes the
  sub-calls of a batch, as the real one does; it decodes \<open>0xaa\<close> and \<open>0xbb\<close> as quantity lists,
  \<open>0xcc\<close> and \<open>0xce\<close> as answers of a batch, and \<open>0x08c379a0\<close>, the selector of
  \<^verbatim>\<open>Error(string)\<close>, as revert data. \<open>decodeErrorResult\<close> looks its first argument up among
  the errors of the ABI, as the real coder does: the ABI here declares the one error
  \<open>Error\<close>, and any other name, the name of a function included, throws
  \<^verbatim>\<open>no matching error\<close>.
\<close>

definition stubInterface :: Interface where
  "stubInterface =
     \<lparr> getFunction = (\<lambda>name.
         if name = ''sampleSellsFromUniswapV2'' \<or> name = ''sampleBuysFromUniswapV2''
            \<or> name = ''batchCall''
         then Inr name else Inl (AbiError ''no matching function'')),
       encodeFunctionData = (\<lambda>fragment params.
         (case params of
            Some [Addresses p, Amounts a] \<Rightarrow>
              if fragment = ''sampleSellsFromUniswapV2'' then Inr (''0x5e'' @ concat p)
              else if fragment = ''sampleBuysFromUniswapV2'' then Inr (''0xb0'' @ concat p)
              else Inl (AbiError ''no matching function'')
          | Some [Calls cs] \<Rightarrow>
              if fragment \<noteq> ''batchCall'' then Inl (AbiError ''no matching function'')
              else if list_ex (\<lambda>c. odd (length c)) cs then Inl (AbiError ''hex data is odd-length'')
              else Inr (''0xba'' @ concat (map (\<lambda>c. CHR '';'' # c) cs))
          | _ \<Rightarrow> Inl (AbiError ''types/values length mismatch''))),
       decodeFunctionResult_0 = (\<lambda>fragment data.
         if data = Some ''0xaa'' then Inr [10, 19]
         else if data = Some ''0xbb'' then Inr [7, 8]
         else if data = Some ''0x08c379a0'' then Inl (AbiError ''call revert exception'')
         else Inl (AbiError ''data out-of-bounds'')),
       decodeFunctionResult_callResults = (\<lambda>fragment data.
         if data = Some ''0xcc'' then Inr [''0xaa'', ''0xbb'']
         else if data = Some ''0xce'' then Inr [''0xaa'', ''0x08c379a0'']
         else Inl (AbiError ''data out-of-bounds'')),
       decodeErrorResult = (\<lambda>name data.
         if name \<noteq> ''Error'' then Inl (AbiError ''no matching error'')
         else if data = Some ''0x08c379a0'' then Inr ''Error(string)''
         else Inl (AbiError ''data signature does not match error'')) \<rparr>"

text \<open>
  The stubbed contract answers each call on its own, and a batch of the two sell queries
  with the answers of both, so a nested batch agrees with the flat one.
\<close>

definition stubCall :: "string \<Rightarrow> string" where
  "stubCall calldata =
     (if calldata = ''0x5eXXYY'' then ''0xaa''
      else if calldata = ''0x5eXXZZ'' then ''0xbb''
      else if calldata = ''0xba;0x5eXXYY;0x5eXXZZ'' then ''0xcc''
      else ''0x'')"

definition stubContract :: Erc20BridgeSampler where
  "stubContract = \<lparr> batchCall = (\<lambda>calls blockTag. Inr (map stubCall calls)) \<rparr>"

definition stubSampler :: Sampler where
  "stubSampler =
     \<lparr> chainId = 1, SamplerOperation.contractInterface = stubInterface,
       samplerOverrides = \<lparr> blockNumber = None \<rparr>, samplerContract = stubContract \<rparr>"

definition stubRoutes :: "SamplerRoute list" where
  "stubRoutes =
     [\<lparr> SamplerRoute.protocol = UniswapV2, path = [''XX'', ''YY''] \<rparr>,
      \<lparr> SamplerRoute.protocol = SushiSwap, path = [''XX'', ''ZZ''] \<rparr>]"

text \<open>An operation that needs no remote call: its payload is the sentinel.\<close>

definition noopOperation :: "(int list) ContractOperation" where
  "noopOperation =
     \<lparr> encodeCall = Inr NULL_BYTES,
       handleCallResults = (\<lambda>callResults.
         if callResults = Some NULL_BYTES then Inr [] else Inl (AbiError ''data out-of-bounds'')),
       handleRevert = (\<lambda>callResults logger. (Inr [], logger)) \<rparr>"

text \<open>
  The two sell queries of \<open>stubRoutes\<close>, typed as plain operations: a list that also holds
  \<open>noopOperation\<close> sees of them only what \<^verbatim>\<open>ContractOperation\<close> declares.
\<close>

definition stubSellXY :: "(int list) ContractOperation" where
  "stubSellXY =
     ContractOperation.truncate
       (getUniswapV2SellQuotes stubInterface [''XX'', ''YY''] [100, 200] (Some UniswapV2))"

definition stubSellXZ :: "(int list) ContractOperation" where
  "stubSellXZ =
     ContractOperation.truncate
       (getUniswapV2SellQuotes stubInterface [''XX'', ''ZZ''] [100, 200] (Some SushiSwap))"

section \<open>Properties\<close>

subsection \<open>Indexing and mapping\<close>

lemma js_index_eq: "js_index xs i = (if i < length xs then Some (xs ! i) else None)"
  by (induction xs i rule: js_index.induct) auto

lemma lodash_map_Inr_iff:
  "lodash_map f xs = Inr ys \<longleftrightarrow>
     length ys = length xs \<and> (\<forall>i<length xs. f (xs ! i) = Inr (ys ! i))"
proof (induction xs arbitrary: ys)
  case Nil
  then show ?case by auto
next
  case (Cons x xs)
  show ?case
  proof (cases ys)
    case Nil
    then show ?thesis by (auto split: sum.splits)
  next
    case (Cons y ys')
    then show ?thesis
      using Cons.IH [of ys']
      by (auto simp: All_less_Suc2 split: sum.splits)
  qed
qed

lemma lodash_map_cong_nth:
  "length xs = length ys \<Longrightarrow> (\<forall>i<length xs. f (xs ! i) = g (ys ! i)) \<Longrightarrow>
   lodash_map f xs = lodash_map g ys"
proof (induction xs ys rule: list_induct2)
  case Nil
  then show ?case by simp
next
  case (Cons x xs y ys)
  have "f x = g y" using Cons.prems by (auto dest: spec [of _ 0])
  moreover have "lodash_map f xs = lodash_map g ys"
    using Cons.prems by (intro Cons.IH) (auto dest: spec [of _ "Suc i" for i])
  ultimately show ?case by (simp split: sum.splits)
qed

lemma lodash_map_enumerate_ops:
  assumes "length callDatas = length ops"
  shows "lodash_map (\<lambda>(i, callData).
             (case js_index ops i of None \<Rightarrow> Inl TypeError | Some op \<Rightarrow> h i callData op))
           (enumerate 0 callDatas)
         = lodash_map (\<lambda>(i, op). h i (callDatas ! i) op) (enumerate 0 ops)"
  using assms by (intro lodash_map_cong_nth) (auto simp: nth_enumerate_eq js_index_eq)

lemma lodash_map_enumerate_drop:
  "lodash_map (\<lambda>(i, x). f x) (enumerate n xs) = lodash_map f xs"
  by (induction xs arbitrary: n) (auto split: sum.splits)

lemma encodeCall_length:
  "lodash_map encodeCall ops = Inr callDatas \<Longrightarrow> length callDatas = length ops"
  by (simp add: lodash_map_Inr_iff)

lemma parseResults_eq:
  "parseResults ops raws (length (filter (\<lambda>cd. cd \<noteq> NULL_BYTES) pre)) (enumerate (length pre) cds)
   = lodash_map (\<lambda>(i, callData).
        (case js_index ops i of
           None \<Rightarrow> Inl TypeError
         | Some op \<Rightarrow>
             handleCallResults op
               (if callData \<noteq> NULL_BYTES
                then js_index raws (length (filter (\<lambda>cd. cd \<noteq> NULL_BYTES) (take i (pre @ cds))))
                else Some NULL_BYTES)))
       (enumerate (length pre) cds)"
proof (induction cds arbitrary: pre)
  case Nil
  then show ?case by simp
next
  case (Cons c cs)
  let ?n = "\<lambda>xs. length (filter (\<lambda>cd. cd \<noteq> NULL_BYTES) xs)"
  let ?F = "\<lambda>all. (\<lambda>(i, callData).
        (case js_index ops i of
           None \<Rightarrow> Inl TypeError
         | Some op \<Rightarrow>
             handleCallResults op
               (if callData \<noteq> NULL_BYTES then js_index raws (?n (take i all))
                else Some NULL_BYTES)))"
  have IH: "parseResults ops raws (?n (pre @ [c])) (enumerate (Suc (length pre)) cs)
            = lodash_map (?F (pre @ c # cs)) (enumerate (Suc (length pre)) cs)"
    using Cons.IH [of "pre @ [c]"] unfolding append_assoc append_Cons append_Nil by simp
  have idx: "(if c \<noteq> NULL_BYTES then ?n pre + 1 else ?n pre) = ?n (pre @ [c])"
    by simp
  have hd: "?F (pre @ c # cs) (length pre, c)
            = (case js_index ops (length pre) of
                 None \<Rightarrow> Inl TypeError
               | Some op \<Rightarrow>
                   handleCallResults op
                     (if c \<noteq> NULL_BYTES then js_index raws (?n pre) else Some NULL_BYTES))"
    by (simp cong: option.case_cong)
  show ?case
    unfolding enumerate_simps parseResults.simps lodash_map.simps Let_def idx IH hd
    by (simp split: option.splits sum.splits)
qed

lemma parseResults_0:
  "parseResults ops raws 0 (enumerate 0 cds)
   = lodash_map (\<lambda>(i, callData).
        (case js_index ops i of
           None \<Rightarrow> Inl TypeError
         | Some op \<Rightarrow>
             handleCallResults op
               (if callData \<noteq> NULL_BYTES
                then js_index raws (length (filter (\<lambda>cd. cd \<noteq> NULL_BYTES) (take i cds)))
                else Some NULL_BYTES)))
       (enumerate 0 cds)"
  using parseResults_eq [of ops raws "[]" cds] unfolding append_Nil by simp

lemma lodash_map_find_error:
  assumes "find P xs = Some x"
    and "\<And>y. \<not> P y \<Longrightarrow> \<exists>v. f y = Inr v"
    and "\<And>y. P y \<Longrightarrow> f y = Inl (g y)"
  shows "lodash_map f xs = Inl (g x)"
  using assms(1)
proof (induction xs)
  case Nil
  then show ?case by simp
next
  case (Cons a xs)
  show ?case
  proof (cases "P a")
    case True
    then show ?thesis using Cons.prems assms(3) [of a] by simp
  next
    case False
    then obtain v where "f a = Inr v" using assms(2) by blast
    moreover have "lodash_map f xs = Inl (g x)" using Cons False by simp
    ultimately show ?thesis by simp
  qed
qed

lemma find_exists: "\<exists>x\<in>set xs. P x \<Longrightarrow> \<exists>y. find P xs = Some y"
  by (induction xs) auto

lemma lodash_map_Inr_map:
  "(\<And>x. x \<in> set xs \<Longrightarrow> f x = Inr (g x)) \<Longrightarrow> lodash_map f xs = Inr (map g xs)"
  by (induction xs) auto

lemma dexSamples_length: "length (dexSamples routes amounts samples) = length routes"
  by (simp add: dexSamples_def)

lemma dexSamples_row:
  assumes "i < length routes"
  shows "dexSamples routes amounts samples ! i
         = map (\<lambda>(j, output).
             \<lparr> DexSample.protocol = SamplerRoute.protocol (routes ! i),
               input = js_index amounts j, output' = output \<rparr>)
             (enumerate 0 (if i < length samples then samples ! i else []))"
  using assms by (simp add: dexSamples_def nth_enumerate_eq js_index_eq)

lemma createBatch_handleCallResults:
  assumes "decodeFunctionResult_callResults (SamplerOperation.contractInterface this) ''batchCall''
             callResults = Inr slots"
  shows "handleCallResults (createBatch this subOps resultHandler revertHandler) callResults
         = (case lodash_map (\<lambda>(i, op). handleCallResults op (js_index slots i))
                   (enumerate 0 subOps) of
              Inl e \<Rightarrow> Inl e
            | Inr results \<Rightarrow> Inr (resultHandler results))"
  using assms by (simp add: createBatch_def)

lemma createBatch_handleCallResults_Inr:
  assumes "decodeFunctionResult_callResults (SamplerOperation.contractInterface this) ''batchCall''
             callResults = Inr slots"
    and "length results = length subOps"
    and "\<forall>i<length subOps. handleCallResults (subOps ! i) (js_index slots i) = Inr (results ! i)"
  shows "handleCallResults (createBatch this subOps resultHandler revertHandler) callResults
         = Inr (resultHandler results)"
proof -
  have "lodash_map (\<lambda>(i, op). handleCallResults op (js_index slots i)) (enumerate 0 subOps)
        = Inr results"
    using assms(2,3) by (simp add: lodash_map_Inr_iff nth_enumerate_eq)
  then show ?thesis using assms(1) by (simp add: createBatch_def)
qed

lemmas stub_defs =
  stubInterface_def stubCall_def stubContract_def stubSampler_def stubRoutes_def
  noopOperation_def stubSellXY_def stubSellXZ_def NULL_BYTES_def
  getUniswapV2SellQuotes_def getUniswapV2BuyQuotes_def SamplerContractOperation_def
  ContractOperation.truncate_def

subsection \<open>The executor\<close>

text \<open>
  C10. For the empty list of operations \<open>executeBatchAsync\<close> returns the empty list and
  makes no remote call: every payload of no payloads is the sentinel, so the first branch
  answers.
\<close>

theorem executeBatchAsync_empty: "executeBatchAsync this [] = (Inr [], [])"
  by (simp add: executeBatchAsync_def)

text \<open>
  C3. When every operation encodes to the sentinel, \<open>executeBatchAsync\<close> makes no remote
  call and the result at \<open>i\<close> is \<open>handleCallResults\<close> of \<open>ops[i]\<close> on the sentinel; the
  call returns exactly when each of these decodes.
\<close>

theorem all_sentinel_short_circuit:
  assumes "\<forall>op\<in>set ops. encodeCall op = Inr NULL_BYTES"
  shows "snd (executeBatchAsync this ops) = []
       \<and> fst (executeBatchAsync this ops)
           = lodash_map (\<lambda>op. handleCallResults op (Some NULL_BYTES)) ops
       \<and> (\<forall>rs. fst (executeBatchAsync this ops) = Inr rs \<longleftrightarrow>
             length rs = length ops
             \<and> (\<forall>i<length ops. handleCallResults (ops ! i) (Some NULL_BYTES) = Inr (rs ! i)))"
proof -
  let ?cds = "replicate (length ops) NULL_BYTES"
  have enc: "lodash_map encodeCall ops = Inr ?cds"
    using assms by (simp add: lodash_map_Inr_iff)
  have all: "list_all (\<lambda>cd. cd = NULL_BYTES) ?cds"
    by (simp add: list_all_iff)
  have "lodash_map (\<lambda>(i, callData).
            (case js_index ops i of None \<Rightarrow> Inl TypeError
             | Some op \<Rightarrow> handleCallResults op (Some NULL_BYTES))) (enumerate 0 ?cds)
        = lodash_map (\<lambda>(i, op). handleCallResults op (Some NULL_BYTES)) (enumerate 0 ops)"
    by (rule lodash_map_enumerate_ops) simp
  also have "\<dots> = lodash_map (\<lambda>op. handleCallResults op (Some NULL_BYTES)) ops"
    by (rule lodash_map_enumerate_drop)
  finally have res: "executeBatchAsync this ops
      = (lodash_map (\<lambda>op. handleCallResults op (Some NULL_BYTES)) ops, [])"
    using enc all by (simp add: executeBatchAsync_def)
  show ?thesis
    by (simp add: res lodash_map_Inr_iff)
qed

theorem all_sentinel_short_circuit_witness:
  "list_all (\<lambda>op. encodeCall op = Inr NULL_BYTES) [noopOperation, noopOperation]
   \<and> executeBatchAsync stubSampler [noopOperation, noopOperation] = (Inr [[], []], [])"
proof -
  have h: "\<forall>op\<in>set [noopOperation, noopOperation]. encodeCall op = Inr NULL_BYTES"
    by (simp add: noopOperation_def)
  show ?thesis
    using all_sentinel_short_circuit [OF h, of stubSampler]
    by (simp add: noopOperation_def prod_eq_iff)
qed

text \<open>
  C2. When some payload is not the sentinel and the remote call answers, exactly the
  payloads that are not the sentinel were sent, in their order, in one call; the result
  has the length of \<open>ops\<close>, and the result at \<open>i\<close> is \<open>handleCallResults\<close> of \<open>ops[i]\<close> on
  the sentinel when its payload was the sentinel, and otherwise on the remote result whose
  position is the number of payloads sent before \<open>i\<close>.
\<close>

theorem executeBatchAsync_splices:
  assumes enc: "lodash_map encodeCall ops = Inr callDatas"
    and some: "\<exists>cd\<in>set callDatas. cd \<noteq> NULL_BYTES"
    and remote: "batchCall (samplerContract this) (filter (\<lambda>cd. cd \<noteq> NULL_BYTES) callDatas)
                   (blockNumber (samplerOverrides this)) = Inr rawCallResults"
  shows "snd (executeBatchAsync this ops)
           = [(filter (\<lambda>cd. cd \<noteq> NULL_BYTES) callDatas, blockNumber (samplerOverrides this))]
       \<and> (\<forall>rs. fst (executeBatchAsync this ops) = Inr rs \<longleftrightarrow>
             length rs = length ops
             \<and> (\<forall>i<length ops.
                   handleCallResults (ops ! i)
                     (if callDatas ! i = NULL_BYTES then Some NULL_BYTES
                      else js_index rawCallResults
                             (length (filter (\<lambda>cd. cd \<noteq> NULL_BYTES) (take i callDatas))))
                   = Inr (rs ! i)))"
proof -
  have len: "length callDatas = length ops" using enc by (rule encodeCall_length)
  have notall: "\<not> list_all (\<lambda>cd. cd = NULL_BYTES) callDatas"
    using some by (auto simp: list_all_iff)
  have res: "executeBatchAsync this ops
      = (parseResults ops rawCallResults 0 (enumerate 0 callDatas),
         [(filter (\<lambda>cd. cd \<noteq> NULL_BYTES) callDatas, blockNumber (samplerOverrides this))])"
    using enc notall remote by (simp add: executeBatchAsync_def)
  show ?thesis
    unfolding res parseResults_0
    using len by (auto simp: lodash_map_Inr_iff nth_enumerate_eq js_index_eq)
qed

theorem executeBatchAsync_splices_witness:
  "lodash_map encodeCall [stubSellXY, noopOperation, stubSellXZ]
     = Inr [''0x5eXXYY'', NULL_BYTES, ''0x5eXXZZ'']
   \<and> batchCall (samplerContract stubSampler) [''0x5eXXYY'', ''0x5eXXZZ''] None
     = Inr [''0xaa'', ''0xbb'']
   \<and> executeBatchAsync stubSampler [stubSellXY, noopOperation, stubSellXZ]
     = (Inr [[10, 19], [], [7, 8]], [([''0x5eXXYY'', ''0x5eXXZZ''], None)])"
proof -
  let ?ops = "[stubSellXY, noopOperation, stubSellXZ]"
  let ?cds = "[''0x5eXXYY'', NULL_BYTES, ''0x5eXXZZ'']"
  have enc: "lodash_map encodeCall ?ops = Inr ?cds"
    by (simp add: stub_defs)
  have some: "\<exists>cd\<in>set ?cds. cd \<noteq> NULL_BYTES"
    by (simp add: NULL_BYTES_def)
  have remote: "batchCall (samplerContract stubSampler) (filter (\<lambda>cd. cd \<noteq> NULL_BYTES) ?cds)
                  (blockNumber (samplerOverrides stubSampler)) = Inr [''0xaa'', ''0xbb'']"
    by (simp add: stub_defs)
  note T = executeBatchAsync_splices [OF enc some remote]
  have calls: "snd (executeBatchAsync stubSampler ?ops) = [([''0x5eXXYY'', ''0x5eXXZZ''], None)]"
    using T by (simp add: stub_defs)
  have "fst (executeBatchAsync stubSampler ?ops) = Inr [[10, 19], [], [7, 8]]"
    using T [THEN conjunct2, THEN spec, of "[[10, 19], [], [7, 8]]"]
    by (simp add: stub_defs numeral_3_eq_3 less_Suc_eq all_conj_distrib imp_conjL)
  with calls enc remote show ?thesis
    by (simp add: prod_eq_iff stub_defs)
qed

subsection \<open>Expanding routes\<close>

text \<open>
  C4. When some route has a protocol other than the two the switch knows, the expansion of
  sell quotes and of buy quotes throws the error that carries the protocol of the first
  such route, and so do \<open>getSellQuotes\<close> and \<open>getBuyQuotes\<close>: no list of operations comes
  back. The expansion has no access to the contract, so it makes no remote call.
\<close>

theorem unsupported_protocol_aborts:
  assumes "\<exists>r\<in>set routes. SamplerRoute.protocol r \<noteq> UniswapV2 \<and> SamplerRoute.protocol r \<noteq> SushiSwap"
  shows "\<exists>bad. find (\<lambda>r. SamplerRoute.protocol r \<noteq> UniswapV2 \<and> SamplerRoute.protocol r \<noteq> SushiSwap) routes
               = Some bad
      \<and> getSellQuoteOperations createInterface amounts routes
          = Inl (UnsupportedSellSampleProtocol (SamplerRoute.protocol bad))
      \<and> getBuyQuoteOperations createInterface amounts routes
          = Inl (UnsupportedBuySampleProtocol (SamplerRoute.protocol bad))
      \<and> getSellQuotes createInterface this amounts routes
          = Inl (UnsupportedSellSampleProtocol (SamplerRoute.protocol bad))
      \<and> getBuyQuotes createInterface this amounts routes
          = Inl (UnsupportedBuySampleProtocol (SamplerRoute.protocol bad))"
proof -
  let ?P = "\<lambda>r. SamplerRoute.protocol r \<noteq> UniswapV2 \<and> SamplerRoute.protocol r \<noteq> SushiSwap"
  obtain bad where bad: "find ?P routes = Some bad"
    using find_exists [OF assms] by blast
  have sell: "getSellQuoteOperations createInterface amounts routes
                = Inl (UnsupportedSellSampleProtocol (SamplerRoute.protocol bad))"
    unfolding getSellQuoteOperations_def
    by (rule lodash_map_find_error [OF bad]) (auto simp: Let_def split: Protocol.splits)
  have buy: "getBuyQuoteOperations createInterface amounts routes
                = Inl (UnsupportedBuySampleProtocol (SamplerRoute.protocol bad))"
    unfolding getBuyQuoteOperations_def
    by (rule lodash_map_find_error [OF bad]) (auto simp: Let_def split: Protocol.splits)
  show ?thesis
    using bad sell buy by (simp add: getSellQuotes_def getBuyQuotes_def)
qed

theorem unsupported_protocol_aborts_witness:
  "getSellQuoteOperations stubInterface [100, 200]
     (stubRoutes @ [\<lparr> SamplerRoute.protocol = OtherProtocol ''Curve'', path = [''XX'', ''YY''] \<rparr>,
                    \<lparr> SamplerRoute.protocol = OtherProtocol ''Balancer'', path = [''XX'', ''YY''] \<rparr>])
     = Inl (UnsupportedSellSampleProtocol (OtherProtocol ''Curve''))
   \<and> getBuyQuotes stubInterface stubSampler [100, 200]
     (stubRoutes @ [\<lparr> SamplerRoute.protocol = OtherProtocol ''Curve'', path = [''XX'', ''YY''] \<rparr>,
                    \<lparr> SamplerRoute.protocol = OtherProtocol ''Balancer'', path = [''XX'', ''YY''] \<rparr>])
     = Inl (UnsupportedBuySampleProtocol (OtherProtocol ''Curve''))"
proof -
  let ?routes = "stubRoutes @ [\<lparr> SamplerRoute.protocol = OtherProtocol ''Curve'', path = [''XX'', ''YY''] \<rparr>,
                    \<lparr> SamplerRoute.protocol = OtherProtocol ''Balancer'', path = [''XX'', ''YY''] \<rparr>]"
  have h: "\<exists>r\<in>set ?routes. SamplerRoute.protocol r \<noteq> UniswapV2 \<and> SamplerRoute.protocol r \<noteq> SushiSwap"
    by (simp add: stubRoutes_def)
  show ?thesis
    using unsupported_protocol_aborts [OF h, of stubInterface "[100, 200]" stubSampler]
    by (simp add: stubRoutes_def)
qed

text \<open>
  C5. When every route has one of the two protocols the switch knows, the expansion
  returns one operation per route, in the order of the routes, each built from the path of
  its route and the amounts as they were passed, with the sampler function of UniswapV2;
  each operation carries the protocol of its own route, SushiSwap included.
\<close>

theorem expansion_in_route_order:
  assumes "\<forall>r\<in>set routes. SamplerRoute.protocol r = UniswapV2 \<or> SamplerRoute.protocol r = SushiSwap"
  shows "getSellQuoteOperations createInterface amounts routes
           = Inr (map (\<lambda>r. SamplerContractOperation
                 \<lparr> SamplerContractOption.protocol = SamplerRoute.protocol r,
                   SamplerContractOption.contractInterface = createInterface,
                   functionName = ''sampleSellsFromUniswapV2'',
                   functionParams = Some [Addresses (path r), Amounts amounts] \<rparr>) routes)
       \<and> getBuyQuoteOperations createInterface amounts routes
           = Inr (map (\<lambda>r. SamplerContractOperation
                 \<lparr> SamplerContractOption.protocol = SamplerRoute.protocol r,
                   SamplerContractOption.contractInterface = createInterface,
                   functionName = ''sampleBuysFromUniswapV2'',
                   functionParams = Some [Addresses (path r), Amounts amounts] \<rparr>) routes)
       \<and> (\<forall>ops. getSellQuoteOperations createInterface amounts routes = Inr ops
                 \<or> getBuyQuoteOperations createInterface amounts routes = Inr ops \<longrightarrow>
              length ops = length routes
              \<and> (\<forall>i<length routes.
                    SourceContractOperation.protocol (ops ! i) = SamplerRoute.protocol (routes ! i)))"
proof -
  have sell: "getSellQuoteOperations createInterface amounts routes
           = Inr (map (\<lambda>r. SamplerContractOperation
                 \<lparr> SamplerContractOption.protocol = SamplerRoute.protocol r,
                   SamplerContractOption.contractInterface = createInterface,
                   functionName = ''sampleSellsFromUniswapV2'',
                   functionParams = Some [Addresses (path r), Amounts amounts] \<rparr>) routes)"
    unfolding getSellQuoteOperations_def
    using assms by (intro lodash_map_Inr_map) (auto simp: Let_def getUniswapV2SellQuotes_def)
  have buy: "getBuyQuoteOperations createInterface amounts routes
           = Inr (map (\<lambda>r. SamplerContractOperation
                 \<lparr> SamplerContractOption.protocol = SamplerRoute.protocol r,
                   SamplerContractOption.contractInterface = createInterface,
                   functionName = ''sampleBuysFromUniswapV2'',
                   functionParams = Some [Addresses (path r), Amounts amounts] \<rparr>) routes)"
    unfolding getBuyQuoteOperations_def
    using assms by (intro lodash_map_Inr_map) (auto simp: Let_def getUniswapV2BuyQuotes_def)
  show ?thesis
    unfolding sell buy by (auto simp: SamplerContractOperation_def)
qed

theorem expansion_in_route_order_witness:
  "getSellQuoteOperations stubInterface [100, 200] stubRoutes
     = Inr [getUniswapV2SellQuotes stubInterface [''XX'', ''YY''] [100, 200] (Some UniswapV2),
            getUniswapV2SellQuotes stubInterface [''XX'', ''ZZ''] [100, 200] (Some SushiSwap)]
   \<and> map SourceContractOperation.protocol
       [getUniswapV2SellQuotes stubInterface [''XX'', ''YY''] [100, 200] (Some UniswapV2),
        getUniswapV2SellQuotes stubInterface [''XX'', ''ZZ''] [100, 200] (Some SushiSwap)]
     = [UniswapV2, SushiSwap]"
proof -
  have h: "\<forall>r\<in>set stubRoutes. SamplerRoute.protocol r = UniswapV2 \<or> SamplerRoute.protocol r = SushiSwap"
    by (simp add: stubRoutes_def)
  have ops: "getSellQuoteOperations stubInterface [100, 200] stubRoutes
     = Inr [getUniswapV2SellQuotes stubInterface [''XX'', ''YY''] [100, 200] (Some UniswapV2),
            getUniswapV2SellQuotes stubInterface [''XX'', ''ZZ''] [100, 200] (Some SushiSwap)]"
    using expansion_in_route_order [OF h, of stubInterface "[100, 200]"]
    by (simp add: stubRoutes_def getUniswapV2SellQuotes_def)
  show ?thesis
    unfolding ops by (simp add: getUniswapV2SellQuotes_def SamplerContractOperation_def)
qed

subsection \<open>Operations and batches\<close>

text \<open>
  C6. The result handler of \<open>getSellQuotes\<close> and of \<open>getBuyQuotes\<close> turns the quantity lists
  \<open>samples\<close>, one per route, into one row per route, in the order of the routes; the row of
  route \<open>i\<close> has one sample per quantity of \<open>samples[i]\<close>, and the sample at \<open>j\<close> carries
  the protocol of route \<open>i\<close>, the input \<open>amounts[j]\<close> and the output \<open>samples[i][j]\<close>.
\<close>

theorem quotes_are_routes_major:
  assumes which:
      "(expand = getSellQuoteOperations createInterface amounts routes
          \<and> quotes = getSellQuotes createInterface this amounts routes)
       \<or> (expand = getBuyQuoteOperations createInterface amounts routes
          \<and> quotes = getBuyQuotes createInterface this amounts routes)"
    and expand: "expand = Inr subOps"
    and unwrap: "decodeFunctionResult_callResults (SamplerOperation.contractInterface this)
                   ''batchCall'' callResults = Inr slots"
    and len: "length samples = length routes"
    and slot: "\<forall>i<length routes. handleCallResults (subOps ! i) (js_index slots i) = Inr (samples ! i)"
  shows "\<exists>op aggregate.
           quotes = Inr op
         \<and> handleCallResults op callResults = Inr aggregate
         \<and> aggregate = dexSamples routes amounts samples
         \<and> length aggregate = length routes
         \<and> (\<forall>i<length routes.
               length (aggregate ! i) = length (samples ! i)
             \<and> (\<forall>j<length (samples ! i).
                   aggregate ! i ! j
                     = \<lparr> DexSample.protocol = SamplerRoute.protocol (routes ! i),
                         input = js_index amounts j,
                         output' = samples ! i ! j \<rparr>
                 \<and> (j < length amounts \<longrightarrow> input (aggregate ! i ! j) = Some (amounts ! j))))"
proof -
  have "getSellQuoteOperations createInterface amounts routes = Inr subOps
        \<or> getBuyQuoteOperations createInterface amounts routes = Inr subOps"
    using which expand by auto
  then have n: "length subOps = length routes"
    by (auto simp: getSellQuoteOperations_def getBuyQuoteOperations_def lodash_map_Inr_iff)
  let ?op = "createBatch this subOps (dexSamples routes amounts) (\<lambda>_ logger. (Inr [], logger))"
  have q: "quotes = Inr ?op"
    using which expand by (auto simp: getSellQuotes_def getBuyQuotes_def split: sum.splits)
  have d: "handleCallResults ?op callResults = Inr (dexSamples routes amounts samples)"
    using unwrap len slot n by (intro createBatch_handleCallResults_Inr) auto
  have cells: "\<forall>i<length routes.
               length (dexSamples routes amounts samples ! i) = length (samples ! i)
             \<and> (\<forall>j<length (samples ! i).
                   dexSamples routes amounts samples ! i ! j
                     = \<lparr> DexSample.protocol = SamplerRoute.protocol (routes ! i),
                         input = js_index amounts j,
                         output' = samples ! i ! j \<rparr>
                 \<and> (j < length amounts \<longrightarrow>
                      input (dexSamples routes amounts samples ! i ! j) = Some (amounts ! j)))"
    using len by (auto simp: dexSamples_row nth_enumerate_eq js_index_eq)
  show ?thesis
    using q d cells by (simp add: dexSamples_length js_index_eq)
qed

theorem quotes_are_routes_major_witness:
  "(case getSellQuotes stubInterface stubSampler [100, 200] stubRoutes of
      Inl e \<Rightarrow> Inl e
    | Inr op \<Rightarrow> handleCallResults op (Some ''0xcc''))
   = Inr [[\<lparr> DexSample.protocol = UniswapV2, input = Some 100, output' = 10 \<rparr>,
           \<lparr> DexSample.protocol = UniswapV2, input = Some 200, output' = 19 \<rparr>],
          [\<lparr> DexSample.protocol = SushiSwap, input = Some 100, output' = 7 \<rparr>,
           \<lparr> DexSample.protocol = SushiSwap, input = Some 200, output' = 8 \<rparr>]]"
proof -
  let ?subOps = "[getUniswapV2SellQuotes stubInterface [''XX'', ''YY''] [100, 200] (Some UniswapV2),
                  getUniswapV2SellQuotes stubInterface [''XX'', ''ZZ''] [100, 200] (Some SushiSwap)]"
  have which:
      "(getSellQuoteOperations stubInterface [100, 200] stubRoutes
          = getSellQuoteOperations stubInterface [100, 200] stubRoutes
          \<and> getSellQuotes stubInterface stubSampler [100, 200] stubRoutes
          = getSellQuotes stubInterface stubSampler [100, 200] stubRoutes)
       \<or> (getSellQuoteOperations stubInterface [100, 200] stubRoutes
          = getBuyQuoteOperations stubInterface [100, 200] stubRoutes
          \<and> getSellQuotes stubInterface stubSampler [100, 200] stubRoutes
          = getBuyQuotes stubInterface stubSampler [100, 200] stubRoutes)"
    by simp
  have expand: "getSellQuoteOperations stubInterface [100, 200] stubRoutes = Inr ?subOps"
    by (simp add: getSellQuoteOperations_def stubRoutes_def)
  have unwrap: "decodeFunctionResult_callResults (SamplerOperation.contractInterface stubSampler)
                   ''batchCall'' (Some ''0xcc'') = Inr [''0xaa'', ''0xbb'']"
    by (simp add: stubSampler_def stubInterface_def)
  have len: "length [[10, 19], [7, 8 :: int]] = length stubRoutes"
    by (simp add: stubRoutes_def)
  have slot: "\<forall>i<length stubRoutes.
                handleCallResults (?subOps ! i) (js_index [''0xaa'', ''0xbb''] i)
                  = Inr ([[10, 19], [7, 8]] ! i)"
    by (simp add: stubRoutes_def less_Suc_eq all_conj_distrib imp_conjL stubInterface_def
          getUniswapV2SellQuotes_def SamplerContractOperation_def)
  obtain op aggregate where
    "getSellQuotes stubInterface stubSampler [100, 200] stubRoutes = Inr op"
    "handleCallResults op (Some ''0xcc'') = Inr aggregate"
    "aggregate = dexSamples stubRoutes [100, 200] [[10, 19], [7, 8]]"
    using quotes_are_routes_major [OF which expand unwrap len slot] by blast
  then show ?thesis
    by (simp add: dexSamples_def stubRoutes_def)
qed

text \<open>
  C7. \<open>handleRevert\<close> is meant to report the revert and return the empty list, for every
  payload. The code does not get that far: line 73 hands \<open>decodeErrorResult\<close> the name of
  the sampler function, which the coder looks up as the name of an error and does not
  find, and nothing catches what it throws. On genuine revert data, which the coder decodes
  under the name of the error, \<open>handleRevert\<close> of a sell query and of a buy query both
  throw, return no list and write no warning.
\<close>

theorem handleRevert_throws_on_revert_data:
  "decodeErrorResult stubInterface ''Error'' (Some ''0x08c379a0'') = Inr ''Error(string)''
   \<and> handleRevert
       (getUniswapV2SellQuotes stubInterface [''XX'', ''YY''] [100, 200] (Some UniswapV2))
       (Some ''0x08c379a0'') []
     = (Inl (AbiError ''no matching error''), [])
   \<and> handleRevert
       (getUniswapV2BuyQuotes stubInterface [''XX'', ''YY''] [100, 200] (Some SushiSwap))
       (Some ''0x08c379a0'') []
     = (Inl (AbiError ''no matching error''), [])"
  by (simp add: getUniswapV2SellQuotes_def getUniswapV2BuyQuotes_def
        SamplerContractOperation_def stubInterface_def)

text \<open>
  C1. When the remote call succeeds and one slot of a batch holds revert data, the slot
  should decode through \<open>handleRevert\<close> of its own operation and the other slots keep their
  results. The code does not do so: lines 205 to 207 hand every slot to
  \<open>handleCallResults\<close>, and no line of the module calls \<open>handleRevert\<close>. On a batch of two
  sell queries whose answer holds the quantities of the first and revert data for the
  second, the decoding of the batch throws what the decoder of the second throws, and the
  quantities of the first are lost with it. This is so for the batch that \<open>getSellQuotes\<close>
  builds, and also when the second operation has a \<open>handleRevert\<close> that returns the empty
  list, since it is never asked.
\<close>

theorem createBatch_failed_slot_throws:
  "decodeFunctionResult_callResults stubInterface ''batchCall'' (Some ''0xce'')
     = Inr [''0xaa'', ''0x08c379a0'']
   \<and> handleCallResults stubSellXY (Some ''0xaa'') = Inr [10, 19]
   \<and> handleCallResults
       (createBatch stubSampler [stubSellXY, stubSellXZ] (\<lambda>results. results)
          (\<lambda>_ logger. (Inr [], logger))) (Some ''0xce'')
     = Inl (AbiError ''call revert exception'')
   \<and> handleCallResults
       (createBatch stubSampler
          [stubSellXY, stubSellXZ\<lparr>handleRevert := (\<lambda>_ logger. (Inr [], logger))\<rparr>]
          (\<lambda>results. results) (\<lambda>_ logger. (Inr [], logger))) (Some ''0xce'')
     = Inl (AbiError ''call revert exception'')
   \<and> (case getSellQuotes stubInterface stubSampler [100, 200] stubRoutes of
        Inl e \<Rightarrow> Inl e
      | Inr op \<Rightarrow> handleCallResults op (Some ''0xce''))
     = Inl (AbiError ''call revert exception'')"
  by (simp add: stub_defs createBatch_def getSellQuotes_def getSellQuoteOperations_def)

text \<open>
  C8, as the code has it. Take sub-operations none of which encodes to the sentinel, an
  interface that encodes their batch to a payload other than the sentinel, and a contract
  whose answer to that one payload unwraps to the answers it gives to the sub-calls sent
  flat. Then executing the batch as a single operation gives the one-element list of what
  the combinator makes of the results of executing the sub-operations directly, and fails
  with the same error when a sub-operation's decoder throws.
\<close>

theorem compose_transparent_without_sentinel:
  assumes enc: "lodash_map encodeCall subOps = Inr subCalls"
    and nosent: "\<forall>cd\<in>set subCalls. cd \<noteq> NULL_BYTES"
    and payload: "encodeFunctionData (SamplerOperation.contractInterface this) ''batchCall''
                    (Some [Calls subCalls]) = Inr payload"
    and notnull: "payload \<noteq> NULL_BYTES"
    and outer: "batchCall (samplerContract this) [payload] (blockNumber (samplerOverrides this))
                  = Inr (outerRaw # rest)"
    and unwrap: "decodeFunctionResult_callResults (SamplerOperation.contractInterface this)
                   ''batchCall'' (Some outerRaw) = Inr slots"
    and flat: "subCalls \<noteq> [] \<longrightarrow>
                 batchCall (samplerContract this) subCalls (blockNumber (samplerOverrides this))
                   = Inr slots"
  shows "fst (executeBatchAsync this [createBatch this subOps combine onFail])
         = (case fst (executeBatchAsync this subOps) of
              Inl e \<Rightarrow> Inl e
            | Inr results \<Rightarrow> Inr [combine results])"
proof -
  let ?B = "createBatch this subOps combine onFail"
  let ?decoded = "lodash_map (\<lambda>(i, op). handleCallResults op (js_index slots i))
                    (enumerate 0 subOps)"
  have len: "length subCalls = length subOps" using enc by (rule encodeCall_length)
  have encB: "encodeCall ?B = Inr payload"
    using enc payload by (simp add: createBatch_def)
  have decB: "handleCallResults ?B (Some outerRaw)
              = (case ?decoded of Inl e \<Rightarrow> Inl e | Inr results \<Rightarrow> Inr (combine results))"
    using unwrap by (rule createBatch_handleCallResults)
  have composed: "fst (executeBatchAsync this [?B])
              = (case ?decoded of Inl e \<Rightarrow> Inl e | Inr results \<Rightarrow> Inr [combine results])"
    using encB notnull outer
    by (simp add: executeBatchAsync_def decB split: sum.splits)
  have direct: "fst (executeBatchAsync this subOps) = ?decoded"
  proof (cases "subCalls = []")
    case True
    then have "subOps = []" using len by simp
    then show ?thesis by (simp add: executeBatchAsync_def)
  next
    case False
    have notall: "\<not> list_all (\<lambda>cd. cd = NULL_BYTES) subCalls"
      using False nosent by (cases subCalls) auto
    have keep: "filter (\<lambda>cd. cd \<noteq> NULL_BYTES) subCalls = subCalls"
      using nosent by simp
    have remote: "batchCall (samplerContract this) subCalls (blockNumber (samplerOverrides this))
                   = Inr slots"
      using flat False by simp
    have "fst (executeBatchAsync this subOps)
            = parseResults subOps slots 0 (enumerate 0 subCalls)"
      using enc notall remote by (simp add: executeBatchAsync_def keep)
    also have "\<dots> = ?decoded"
      unfolding parseResults_0
    proof (rule lodash_map_cong_nth)
      show "length (enumerate 0 subCalls) = length (enumerate 0 subOps)"
        using len by simp
      show "\<forall>i<length (enumerate 0 subCalls).
              (case enumerate 0 subCalls ! i of
                 (i, callData) \<Rightarrow>
                   (case js_index subOps i of
                      None \<Rightarrow> Inl TypeError
                    | Some op \<Rightarrow>
                        handleCallResults op
                          (if callData \<noteq> NULL_BYTES
                           then js_index slots
                                  (length (filter (\<lambda>cd. cd \<noteq> NULL_BYTES) (take i subCalls)))
                           else Some NULL_BYTES)))
              = (case enumerate 0 subOps ! i of
                   (i, op) \<Rightarrow> handleCallResults op (js_index slots i))"
      proof (intro allI impI)
        fix i assume "i < length (enumerate 0 subCalls)"
        then have i: "i < length subCalls" by simp
        have "subCalls ! i \<noteq> NULL_BYTES" using nosent i by simp
        moreover have "filter (\<lambda>cd. cd \<noteq> NULL_BYTES) (take i subCalls) = take i subCalls"
          using nosent by (intro filter_True) (auto dest: in_set_takeD)
        ultimately show "(case enumerate 0 subCalls ! i of
                 (i, callData) \<Rightarrow>
                   (case js_index subOps i of
                      None \<Rightarrow> Inl TypeError
                    | Some op \<Rightarrow>
                        handleCallResults op
                          (if callData \<noteq> NULL_BYTES
                           then js_index slots
                                  (length (filter (\<lambda>cd. cd \<noteq> NULL_BYTES) (take i subCalls)))
                           else Some NULL_BYTES)))
              = (case enumerate 0 subOps ! i of
                   (i, op) \<Rightarrow> handleCallResults op (js_index slots i))"
          using i len by (simp add: nth_enumerate_eq js_index_eq)
      qed
    qed
    finally show ?thesis .
  qed
  show ?thesis
    unfolding composed direct by simp
qed

theorem compose_transparent_without_sentinel_witness:
  "fst (executeBatchAsync stubSampler
          [createBatch stubSampler [stubSellXY, stubSellXZ] (\<lambda>results. results)
             (\<lambda>_ logger. (Inr [], logger))])
     = Inr [[[10, 19], [7, 8]]]
   \<and> fst (executeBatchAsync stubSampler [stubSellXY, stubSellXZ]) = Inr [[10, 19], [7, 8]]"
proof -
  let ?subCalls = "[''0x5eXXYY'', ''0x5eXXZZ'']"
  have enc: "lodash_map encodeCall [stubSellXY, stubSellXZ] = Inr ?subCalls"
    by (simp add: stub_defs)
  have nosent: "\<forall>cd\<in>set ?subCalls. cd \<noteq> NULL_BYTES"
    by (simp add: NULL_BYTES_def)
  have payload: "encodeFunctionData (SamplerOperation.contractInterface stubSampler) ''batchCall''
                    (Some [Calls ?subCalls]) = Inr ''0xba;0x5eXXYY;0x5eXXZZ''"
    by (simp add: stubSampler_def stubInterface_def)
  have notnull: "''0xba;0x5eXXYY;0x5eXXZZ'' \<noteq> NULL_BYTES"
    by (simp add: NULL_BYTES_def)
  have outer: "batchCall (samplerContract stubSampler) [''0xba;0x5eXXYY;0x5eXXZZ'']
                 (blockNumber (samplerOverrides stubSampler)) = Inr (''0xcc'' # [])"
    by (simp add: stubSampler_def stubContract_def stubCall_def)
  have unwrap: "decodeFunctionResult_callResults (SamplerOperation.contractInterface stubSampler)
                   ''batchCall'' (Some ''0xcc'') = Inr [''0xaa'', ''0xbb'']"
    by (simp add: stubSampler_def stubInterface_def)
  have flat: "?subCalls \<noteq> [] \<longrightarrow>
                 batchCall (samplerContract stubSampler) ?subCalls
                   (blockNumber (samplerOverrides stubSampler)) = Inr [''0xaa'', ''0xbb'']"
    by (simp add: stubSampler_def stubContract_def stubCall_def)
  note T = compose_transparent_without_sentinel
             [OF enc nosent payload notnull outer unwrap flat, of "\<lambda>results. results"
                "\<lambda>_ logger. (Inr [], logger)"]
  have direct: "fst (executeBatchAsync stubSampler [stubSellXY, stubSellXZ])
                  = Inr [[10, 19], [7, 8]]"
    by (simp add: executeBatchAsync_def stub_defs)
  show ?thesis
    using T direct by simp
qed

text \<open>
  The claim as stated fails when a sub-operation encodes to the sentinel: executed
  directly, that operation is skipped and decodes the sentinel; inside a batch its payload
  is handed to the encoder of the batch like any other, and \<open>0x0\<close> is not a byte string.
\<close>

theorem compose_sentinel_counterexample:
  "fst (executeBatchAsync stubSampler
          [createBatch stubSampler [stubSellXY, noopOperation] (\<lambda>results. results)
             (\<lambda>_ logger. (Inr [], logger))])
     = Inl (AbiError ''hex data is odd-length'')
   \<and> fst (executeBatchAsync stubSampler [stubSellXY, noopOperation]) = Inr [[10, 19], []]"
  by (simp add: executeBatchAsync_def createBatch_def stub_defs)

end
